theory Spec2Isabelle
  imports Main "HOL-Library.AList"
begin

section \<open>The object definition parser of editor/object_toolbar.py\<close>

text \<open>
  The module reads FIFE object files with lxml and turns them into nested Python
  dictionaries. The embedding keeps the functions of the module and their names. What
  the module gets from libraries and from the interpreter (the XML parser, the file
  system, \<open>os.path\<close>, \<open>int\<close>) is a record of functions, \<open>env\<close>; every exception
  of the Python code is a value of \<open>py_error\<close>, returned on the left of a sum.
\<close>

subsection \<open>XML trees as lxml presents them\<close>

text \<open>
  A comment or a processing instruction: \<open>misc_tag\<close> is what \<open>'%s' % node.tag\<close>
  prints for it, \<open>misc_text\<close> is \<open>node.text\<close> (\<open>None\<close> in Python when it has no
  content).
\<close>

datatype misc = Misc (misc_tag: string) (misc_text: "string option")

text \<open>
  An element has a tag, its attributes in document order and its child nodes;
  \<open>obj[0]\<close> is the first child node, whatever its kind.
\<close>

datatype element = Element (tag: string) (attrib: "(string \<times> string) list") (children: "node list")
and node = Elem element | Other misc

text \<open>
  A parsed document: \<open>tree.getroot()\<close>, and \<open>tree.getroot().getprevious()\<close>, the
  comment or processing instruction just before the root element, if there is one.
\<close>

record document =
  getroot :: element
  getprevious :: "misc option"

datatype py_error =
    XMLSyntaxError int
  | IOError
  | KeyError string
  | ValueError
  | IndexError
  | AttributeError
  | RuntimeError string
  | RecursionLimit
  | UnicodeError

text \<open>
  \<open>XMLSyntaxError l\<close> carries \<open>e.position[0]\<close>, the line lxml reports.
  \<open>RecursionLimit\<close> is the \<open>RuntimeError\<close> of the interpreter when the call stack
  is exhausted; it has a constructor of its own to keep it apart from the two
  \<open>RuntimeError\<close>s that the module raises itself.
\<close>

record env =
  etree_parse :: "string \<Rightarrow> py_error + document"
  etree_parse_text :: "string \<Rightarrow> py_error + document"
  readlines :: "string \<Rightarrow> py_error + string list"
  os_path_dirname :: "string \<Rightarrow> string"
  os_path_join :: "string \<Rightarrow> string \<Rightarrow> string"
  os_path_abspath :: "string \<Rightarrow> string"
  py_int :: "string \<Rightarrow> py_error + int"

text \<open>
  \<open>etree_parse env f\<close> is \<open>etree.parse(f)\<close> on a file name,
  \<open>etree_parse_text env s\<close> is \<open>etree.parse(StringIO(s))\<close> (the implicit decoding
  of \<open>u"".join(...)\<close> included), \<open>readlines env f\<close> is
  \<open>file(f, "r").readlines()\<close>. \<open>py_int env s\<close> is \<open>int(s)\<close>, the built-in
  conversion of the interpreter, on an attribute value as lxml returns it: the integer
  it reads, or the error it raises. Which strings \<open>int\<close> reads as which integer (white
  space, signs, the digits of other scripts) is left to the interpreter; the parser is
  modelled for any such function, and every statement below holds for each of them.
\<close>

fun findall_nodes :: "node list \<Rightarrow> string \<Rightarrow> element list" where
  "findall_nodes [] t = []"
| "findall_nodes (Elem c # ns) t = (if tag c = t then c # findall_nodes ns t else findall_nodes ns t)"
| "findall_nodes (Other m # ns) t = findall_nodes ns t"

definition findall :: "element \<Rightarrow> string \<Rightarrow> element list" where
  "findall e t = findall_nodes (children e) t"

fun node_tag :: "node \<Rightarrow> string" where
  "node_tag (Elem e) = tag e"
| "node_tag (Other m) = misc_tag m"

subsection \<open>Python values\<close>

text \<open>
  A dictionary is an association list with one pair for each key: \<open>d[k] = v\<close> is
  \<open>AList.update k v d\<close>, \<open>d.update(e)\<close> is \<open>AList.merge d e\<close>, \<open>d[k]\<close> is
  \<open>getitem d k\<close> and \<open>k in d\<close> is \<open>has_key d k\<close>. The order of the pairs has no
  meaning; every statement below reads a dictionary through \<open>map_of\<close>.
\<close>

definition getitem :: "(string \<times> 'v) list \<Rightarrow> string \<Rightarrow> py_error + 'v" where
  "getitem d k = (case map_of d k of None \<Rightarrow> Inl (KeyError k) | Some v \<Rightarrow> Inr v)"

definition has_key :: "('k \<times> 'v) list \<Rightarrow> 'k \<Rightarrow> bool" where
  "has_key d k = (map_of d k \<noteq> None)"

text \<open>\<open>xs[:i]\<close> and \<open>xs[i:]\<close>: a negative index counts from the end.\<close>

definition slice_to :: "'a list \<Rightarrow> int \<Rightarrow> 'a list" where
  "slice_to xs i = (if i < 0 then take (nat (int (length xs) + i)) xs else take (nat i) xs)"

definition slice_from :: "'a list \<Rightarrow> int \<Rightarrow> 'a list" where
  "slice_from xs i = (if i < 0 then drop (nat (int (length xs) + i)) xs else drop (nat i) xs)"

text \<open>A line of text with its line feed: \<open>line ''abc''\<close> is \<open>"abc\n"\<close>.\<close>

definition line :: "string \<Rightarrow> string" where
  "line s = s @ [CHR 0x0A]"

text \<open>\<open>s.split(c)\<close> for a separator of one character.\<close>

fun split :: "char \<Rightarrow> string \<Rightarrow> string list" where
  "split c [] = [[]]"
| "split c (x # xs) =
     (if x = c then [] # split c xs
      else (case split c xs of [] \<Rightarrow> [[x]] | w # ws \<Rightarrow> (x # w) # ws))"

definition index :: "'a list \<Rightarrow> nat \<Rightarrow> py_error + 'a" where
  "index xs i = (if i < length xs then Inr (xs ! i) else Inl IndexError)"

definition replace_quotes :: "string \<Rightarrow> string" where
  "replace_quotes s = filter (\<lambda>c. c \<noteq> CHR 0x22) s"

definition lower_char :: "char \<Rightarrow> char" where
  "lower_char c =
     (let n = (of_char c :: nat) in if 65 \<le> n \<and> n \<le> 90 then char_of (n + 32) else c)"

definition lower :: "string \<Rightarrow> string" where
  "lower s = map lower_char s"

subsection \<open>The dictionaries the parser builds\<close>

text \<open>The result of \<open>parse_atlas\<close>: keys \<open>"atlas"\<close> and \<open>"images"\<close>.\<close>

record atlas_def =
  atlas :: element
  images :: "(string \<times> element) list"

text \<open>
  The result of \<open>parse_animation\<close>: \<open>"delay"\<close> is there only when the animation
  came from a file of its own.
\<close>

record ani_def =
  delay :: "string option"
  direction :: string
  frames :: "string list"
  x_offset :: string
  y_offset :: string

text \<open>One entry of \<open>"directions"\<close> in an atlas animation.\<close>

record dir_data =
  dir_delay :: string
  dir_frames :: string

text \<open>The dictionary under \<open>"atlas"\<close> in an atlas animation.\<close>

record atlas_info =
  atlas_image :: string
  atlas_width :: string
  atlas_height :: string

datatype direction_def = Frames ani_def | AtlasDir dir_data

text \<open>The result of \<open>parse_animation_atlas\<close>: keys \<open>"atlas"\<close> and \<open>"directions"\<close>.\<close>

record atlas_animation =
  aa_atlas :: atlas_info
  aa_directions :: "(int \<times> direction_def) list"

text \<open>
  The result of \<open>parse_animations\<close>: keys \<open>"type"\<close>, \<open>"directions"\<close> and, for the
  type \<open>"single"\<close>, \<open>"atlas"\<close>.
\<close>

record animations =
  ani_type :: string
  ani_atlas :: "atlas_info option"
  ani_directions :: "(int \<times> direction_def) list"

text \<open>
  The result of \<open>parse_object\<close>: key \<open>"object"\<close>, and \<open>"actions"\<close> or
  \<open>"directions"\<close>.
\<close>

record obj_def =
  obj_object :: "(string \<times> string) list"
  obj_actions :: "(string \<times> animations) list option"
  obj_directions :: "(int \<times> (string \<times> string) list) list option"

subsection \<open>parse\_atlas\<close>

fun parse_atlas_loop ::
  "element list \<Rightarrow> (string \<times> element) list \<Rightarrow> py_error + (string \<times> element) list" where
  "parse_atlas_loop [] imgs = Inr imgs"
| "parse_atlas_loop (img # rest) imgs =
     (case getitem (attrib img) ''source'' of
        Inl e \<Rightarrow> Inl e
      | Inr image_name \<Rightarrow> parse_atlas_loop rest (AList.update image_name img imgs))"

definition parse_atlas :: "element \<Rightarrow> string \<Rightarrow> py_error + atlas_def" where
  "parse_atlas element root_path =
     (case parse_atlas_loop (findall element ''image'') [] of
        Inl e \<Rightarrow> Inl e
      | Inr imgs \<Rightarrow> Inr \<lparr>atlas = element, images = imgs\<rparr>)"

subsection \<open>parse\_animation and parse\_animation\_atlas\<close>

fun parse_frames :: "env \<Rightarrow> string \<Rightarrow> element list \<Rightarrow> string list \<Rightarrow> py_error + string list" where
  "parse_frames env root_path [] fs = Inr fs"
| "parse_frames env root_path (frame # rest) fs =
     (case getitem (attrib frame) ''source'' of
        Inl e \<Rightarrow> Inl e
      | Inr s \<Rightarrow>
          parse_frames env root_path rest
            (fs @ [os_path_abspath env (os_path_join env root_path s)]))"

text \<open>The branch of \<open>parse_animation\<close> for an element without \<open>source\<close>.\<close>

definition parse_animation_inline :: "env \<Rightarrow> element \<Rightarrow> string \<Rightarrow> py_error + ani_def" where
  "parse_animation_inline env animation root_path =
     (case parse_frames env root_path (findall animation ''frame'') [] of
        Inl e \<Rightarrow> Inl e
      | Inr fs \<Rightarrow>
     (case getitem (attrib animation) ''id'' of
        Inl e \<Rightarrow> Inl e
      | Inr ident \<Rightarrow>
     (case index (split CHR '':'' ident) 2 of
        Inl e \<Rightarrow> Inl e
      | Inr dir \<Rightarrow>
     (case getitem (attrib animation) ''x_offset'' of
        Inl e \<Rightarrow> Inl e
      | Inr xo \<Rightarrow>
     (case getitem (attrib animation) ''y_offset'' of
        Inl e \<Rightarrow> Inl e
      | Inr yo \<Rightarrow>
          Inr \<lparr>delay = None, direction = dir, frames = fs, x_offset = xo, y_offset = yo\<rparr>)))))"

text \<open>
  \<open>parse_animation\<close> calls itself on the root of the file that \<open>source\<close> names.
  \<open>depth\<close> is the number of nested calls the interpreter still allows; the call that
  would exceed it raises.
\<close>

fun parse_animation :: "env \<Rightarrow> nat \<Rightarrow> element \<Rightarrow> string \<Rightarrow> py_error + ani_def" where
  "parse_animation env depth animation root_path =
     (case map_of (attrib animation) ''source'' of
        Some animation_file \<Rightarrow>
          (let ani_file = os_path_join env root_path animation_file;
               ani_path = os_path_dirname env ani_file
           in case etree_parse env ani_file of
                Inl e \<Rightarrow> Inl e
              | Inr ani_doc \<Rightarrow>
                  (case getitem (attrib (getroot ani_doc)) ''delay'' of
                     Inl e \<Rightarrow> Inl e
                   | Inr d \<Rightarrow>
                       (case depth of
                          0 \<Rightarrow> Inl RecursionLimit
                        | Suc depth' \<Rightarrow>
                            (case parse_animation env depth' (getroot ani_doc) ani_path of
                               Inl e \<Rightarrow> Inl e
                             | Inr inner \<Rightarrow>
                                 Inr (inner\<lparr>delay :=
                                   (case delay inner of None \<Rightarrow> Some d | Some d' \<Rightarrow> Some d')\<rparr>)))))
      | None \<Rightarrow> parse_animation_inline env animation root_path)"

fun parse_animation_atlas_loop ::
  "env \<Rightarrow> element list \<Rightarrow> (int \<times> direction_def) list
     \<Rightarrow> py_error + (int \<times> direction_def) list" where
  "parse_animation_atlas_loop env [] dirs = Inr dirs"
| "parse_animation_atlas_loop env (dir_el # rest) dirs =
     (case getitem (attrib dir_el) ''dir'' of
        Inl e \<Rightarrow> Inl e
      | Inr s \<Rightarrow>
     (case py_int env s of
        Inl e \<Rightarrow> Inl e
      | Inr action_dir \<Rightarrow>
     (case getitem (attrib dir_el) ''delay'' of
        Inl e \<Rightarrow> Inl e
      | Inr d \<Rightarrow>
     (case getitem (attrib dir_el) ''frames'' of
        Inl e \<Rightarrow> Inl e
      | Inr f \<Rightarrow>
          parse_animation_atlas_loop env rest
            (AList.update action_dir (AtlasDir \<lparr>dir_delay = d, dir_frames = f\<rparr>) dirs)))))"

definition parse_animation_atlas :: "env \<Rightarrow> element \<Rightarrow> string \<Rightarrow> py_error + atlas_animation" where
  "parse_animation_atlas env animation root_path =
     (case getitem (attrib animation) ''atlas'' of
        Inl e \<Rightarrow> Inl e
      | Inr a \<Rightarrow>
     (case getitem (attrib animation) ''width'' of
        Inl e \<Rightarrow> Inl e
      | Inr w \<Rightarrow>
     (case getitem (attrib animation) ''height'' of
        Inl e \<Rightarrow> Inl e
      | Inr h \<Rightarrow>
     (case parse_animation_atlas_loop env (findall animation ''direction'') [] of
        Inl e \<Rightarrow> Inl e
      | Inr dirs \<Rightarrow>
          Inr \<lparr>aa_atlas = \<lparr>atlas_image = os_path_abspath env (os_path_join env root_path a),
                            atlas_width = w, atlas_height = h\<rparr>,
               aa_directions = dirs\<rparr>))))"

subsection \<open>parse\_animations and parse\_actions\<close>

fun parse_animations_loop ::
  "env \<Rightarrow> nat \<Rightarrow> element list \<Rightarrow> string \<Rightarrow> (int \<times> direction_def) list
     \<Rightarrow> py_error + (int \<times> direction_def) list" where
  "parse_animations_loop env depth [] root_path dirs = Inr dirs"
| "parse_animations_loop env depth (animation # rest) root_path dirs =
     (case parse_animation env depth animation root_path of
        Inl e \<Rightarrow> Inl e
      | Inr ad \<Rightarrow>
     (case py_int env (direction ad) of
        Inl e \<Rightarrow> Inl e
      | Inr dir \<Rightarrow>
          parse_animations_loop env depth rest root_path (AList.update dir (Frames ad) dirs)))"

definition parse_animations :: "env \<Rightarrow> nat \<Rightarrow> element list \<Rightarrow> string \<Rightarrow> py_error + animations" where
  "parse_animations env depth anis root_path =
     (case anis of
        [] \<Rightarrow> Inl IndexError
      | first # _ \<Rightarrow>
          if has_key (attrib first) ''atlas'' then
            (case parse_animation_atlas env first root_path of
               Inl e \<Rightarrow> Inl e
             | Inr aa \<Rightarrow>
                 Inr \<lparr>ani_type = ''single'', ani_atlas = Some (aa_atlas aa),
                      ani_directions = aa_directions aa\<rparr>)
          else
            (case parse_animations_loop env depth anis root_path [] of
               Inl e \<Rightarrow> Inl e
             | Inr dirs \<Rightarrow>
                 Inr \<lparr>ani_type = ''multi'', ani_atlas = None, ani_directions = dirs\<rparr>))"

fun parse_actions_loop ::
  "env \<Rightarrow> nat \<Rightarrow> element list \<Rightarrow> string \<Rightarrow> (string \<times> animations) list
     \<Rightarrow> py_error + (string \<times> animations) list" where
  "parse_actions_loop env depth [] root_path action_dict = Inr action_dict"
| "parse_actions_loop env depth (action # rest) root_path action_dict =
     (case parse_animations env depth (findall action ''animation'') root_path of
        Inl e \<Rightarrow> Inl e
      | Inr anis \<Rightarrow>
     (case getitem (attrib action) ''id'' of
        Inl e \<Rightarrow> Inl e
      | Inr ident \<Rightarrow>
          parse_actions_loop env depth rest root_path (AList.update ident anis action_dict)))"

definition parse_actions ::
  "env \<Rightarrow> nat \<Rightarrow> element list \<Rightarrow> string \<Rightarrow> py_error + (string \<times> animations) list" where
  "parse_actions env depth acts root_path = parse_actions_loop env depth acts root_path []"

subsection \<open>parse\_object\<close>

text \<open>
  The body of the loop over the \<open>image\<close> children of a static object, up to the
  assignment \<open>dir_defs[direction] = image_def\<close>: it gives the key and the value of
  that assignment. Without an atlas definition \<open>image_sources\<close> is the empty
  dictionary, and no source is a key of it.
\<close>

definition parse_image ::
  "env \<Rightarrow> string \<Rightarrow> atlas_def option \<Rightarrow> element \<Rightarrow> py_error + int \<times> (string \<times> string) list" where
  "parse_image env root_path atlas_def img =
     (case getitem (attrib img) ''source'' of
        Inl e \<Rightarrow> Inl e
      | Inr source \<Rightarrow>
     (case
        (case atlas_def of
           None \<Rightarrow> Inr (AList.update ''type'' ''image'' (attrib img))
         | Some a \<Rightarrow>
             (case map_of (images a) source of
                None \<Rightarrow> Inr (AList.update ''type'' ''image'' (attrib img))
              | Some entry \<Rightarrow>
                  (case getitem (attrib (atlas a)) ''name'' of
                     Inl e \<Rightarrow> Inl e
                   | Inr name \<Rightarrow>
                       Inr (AList.update ''source'' name
                             (AList.update ''type'' ''atlas''
                               (AList.merge (attrib img) (attrib entry)))))))
      of
        Inl e \<Rightarrow> Inl e
      | Inr image_def \<Rightarrow>
     (case getitem image_def ''source'' of
        Inl e \<Rightarrow> Inl e
      | Inr s \<Rightarrow>
     (let image_def' =
            AList.update ''source'' (os_path_abspath env (os_path_join env root_path s)) image_def
      in case getitem image_def' ''direction'' of
           Inl e \<Rightarrow> Inl e
         | Inr d \<Rightarrow>
        (case py_int env d of
           Inl e \<Rightarrow> Inl e
         | Inr dir \<Rightarrow> Inr (dir, image_def'))))))"

fun parse_images ::
  "env \<Rightarrow> string \<Rightarrow> atlas_def option \<Rightarrow> element list \<Rightarrow> (int \<times> (string \<times> string) list) list
     \<Rightarrow> py_error + (int \<times> (string \<times> string) list) list" where
  "parse_images env root_path atlas_def [] dir_defs = Inr dir_defs"
| "parse_images env root_path atlas_def (img # rest) dir_defs =
     (case parse_image env root_path atlas_def img of
        Inl e \<Rightarrow> Inl e
      | Inr (dir, image_def) \<Rightarrow>
          parse_images env root_path atlas_def rest (AList.update dir image_def dir_defs))"

definition unknown_kind :: "string \<Rightarrow> py_error" where
  "unknown_kind t = RuntimeError (''Don'' @ [CHR 0x27] @ ''t know how to handle '' @ [CHR 0x27] @ t @ [CHR 0x27])"

definition parse_object ::
  "env \<Rightarrow> nat \<Rightarrow> element \<Rightarrow> string \<Rightarrow> atlas_def option \<Rightarrow> py_error + obj_def" where
  "parse_object env depth obj root_path atlas_def =
     (case getitem (attrib obj) ''static'' of
        Inl e \<Rightarrow> Inl e
      | Inr s \<Rightarrow>
     (case py_int env s of
        Inl e \<Rightarrow> Inl e
      | Inr static \<Rightarrow>
          if static = 0 then
            (case parse_actions env depth (findall obj ''action'') root_path of
               Inl e \<Rightarrow> Inl e
             | Inr acts \<Rightarrow>
                 Inr \<lparr>obj_object = attrib obj, obj_actions = Some acts, obj_directions = None\<rparr>)
          else if static = 1 then
            (case parse_images env root_path atlas_def (findall obj ''image'') [] of
               Inl e \<Rightarrow> Inl e
             | Inr dir_defs \<Rightarrow>
                 Inr \<lparr>obj_object = attrib obj, obj_actions = None, obj_directions = Some dir_defs\<rparr>)
          else
            (case children obj of
               [] \<Rightarrow> Inl IndexError
             | c # _ \<Rightarrow> Inl (unknown_kind (node_tag c)))))"

subsection \<open>parse\_file\<close>

fun parse_objects ::
  "env \<Rightarrow> nat \<Rightarrow> element list \<Rightarrow> string \<Rightarrow> atlas_def \<Rightarrow> obj_def list \<Rightarrow> py_error + obj_def list" where
  "parse_objects env depth [] root_path ad objects = Inr objects"
| "parse_objects env depth (obj # rest) root_path ad objects =
     (case parse_object env depth obj root_path (Some ad) of
        Inl e \<Rightarrow> Inl e
      | Inr od \<Rightarrow> parse_objects env depth rest root_path ad (objects @ [od]))"

definition unexpected_format :: "string \<Rightarrow> py_error" where
  "unexpected_format filename =
     RuntimeError (''Unexpected file format '' @ [CHR 0x27] @ filename @ [CHR 0x27])"

text \<open>
  \<open>pi.text.split("=")[1].replace('"', '').lower()\<close> for
  \<open>pi = root.getprevious()\<close>.
\<close>

definition file_type :: "misc option \<Rightarrow> py_error + string" where
  "file_type pi =
     (case pi of
        None \<Rightarrow> Inl AttributeError
      | Some m \<Rightarrow>
          (case misc_text m of
             None \<Rightarrow> Inl AttributeError
           | Some t \<Rightarrow>
               (case index (split CHR ''='' t) 1 of
                  Inl e \<Rightarrow> Inl e
                | Inr v \<Rightarrow> Inr (lower (replace_quotes v)))))"

text \<open>The handler of \<open>etree.XMLSyntaxError\<close> in \<open>parse_file\<close>; \<open>lineno\<close> is \<open>e.position[0]\<close>.\<close>

definition recover :: "env \<Rightarrow> nat \<Rightarrow> string \<Rightarrow> string \<Rightarrow> int \<Rightarrow> py_error + obj_def list" where
  "recover env depth filename root_path lineno =
     (case readlines env filename of
        Inl e \<Rightarrow> Inl e
      | Inr lines \<Rightarrow>
     (let line_no = lineno - 2 in
      case etree_parse_text env (concat (slice_to lines line_no)) of
        Inl e \<Rightarrow> Inl e
      | Inr tree \<Rightarrow>
     (case file_type (getprevious tree) of
        Inl e \<Rightarrow> Inl e
      | Inr ft \<Rightarrow>
          if ft \<noteq> ''atlas'' then Inl (unexpected_format filename)
          else
     (case parse_atlas (getroot tree) root_path of
        Inl e \<Rightarrow> Inl e
      | Inr ad \<Rightarrow>
     (case etree_parse_text env
             (concat ([line ''<objects>''] @ slice_from lines (line_no + 1)
                       @ [line ''</objects>''])) of
        Inl e \<Rightarrow> Inl e
      | Inr tree2 \<Rightarrow>
          parse_objects env depth (findall (getroot tree2) ''object'') root_path ad [])))))"

text \<open>
  The body of the \<open>try\<close> block of \<open>parse_file\<close>: the whole file is parsed and its
  root is handed to \<open>parse_object\<close>.
\<close>

definition parse_plain :: "env \<Rightarrow> nat \<Rightarrow> string \<Rightarrow> string \<Rightarrow> py_error + obj_def list" where
  "parse_plain env depth filename root_path =
     (case etree_parse env filename of
        Inl e \<Rightarrow> Inl e
      | Inr tree \<Rightarrow>
          (case parse_object env depth (getroot tree) root_path None of
             Inl e \<Rightarrow> Inl e
           | Inr od \<Rightarrow> Inr [od]))"

definition parse_file :: "env \<Rightarrow> nat \<Rightarrow> string \<Rightarrow> py_error + obj_def list" where
  "parse_file env depth filename =
     (let root_path = os_path_dirname env filename in
      case parse_plain env depth filename root_path of
        Inl (XMLSyntaxError lineno) \<Rightarrow> recover env depth filename root_path lineno
      | Inl e \<Rightarrow> Inl e
      | Inr objects \<Rightarrow> Inr objects)"

subsection \<open>The three loops that fill a dictionary of directions\<close>

text \<open>
  The loops of \<open>parse_object\<close>, \<open>parse_animations\<close> and \<open>parse_animation_atlas\<close>
  have one shape: each child gives a key and a value, or raises, and the value is
  stored under the key. \<open>update_loop\<close> is that shape; \<open>animation_entry\<close> and
  \<open>direction_entry\<close> are the key and the value that the second and the third loop get
  from one child, as \<open>parse_image\<close> is for the first.
\<close>

fun update_loop ::
  "('a \<Rightarrow> py_error + 'k \<times> 'v) \<Rightarrow> 'a list \<Rightarrow> ('k \<times> 'v) list \<Rightarrow> py_error + ('k \<times> 'v) list" where
  "update_loop f [] d = Inr d"
| "update_loop f (x # xs) d =
     (case f x of Inl e \<Rightarrow> Inl e | Inr (k, v) \<Rightarrow> update_loop f xs (AList.update k v d))"



subsection \<open>Concrete environments\<close>

text \<open>
  The examples below run the parser in an environment given by three tables: what
  \<open>etree.parse\<close> returns for each file name, what it returns for each text, and the
  lines of each file. A file that is not in the tables cannot be opened; a text that is
  not in the tables is not well-formed. The path functions are those of \<open>posixpath\<close>
  for the working directory \<open>/\<close> and paths without \<open>.\<close>, \<open>..\<close> or doubled slashes.
\<close>

definition posix_join :: "string \<Rightarrow> string \<Rightarrow> string" where
  "posix_join a b =
     (if b \<noteq> [] \<and> hd b = CHR ''/'' then b
      else if a = [] \<or> last a = CHR ''/'' then a @ b
      else a @ ''/'' @ b)"

definition posix_dirname :: "string \<Rightarrow> string" where
  "posix_dirname p =
     (let head = rev (dropWhile (\<lambda>c. c \<noteq> CHR ''/'') (rev p))
      in if head \<noteq> [] \<and> \<not> list_all (\<lambda>c. c = CHR ''/'') head
         then rev (dropWhile (\<lambda>c. c = CHR ''/'') (rev head)) else head)"

definition posix_abspath :: "string \<Rightarrow> string" where
  "posix_abspath p = (if p \<noteq> [] \<and> hd p = CHR ''/'' then p else ''/'' @ p)"

text \<open>
  The attribute values that the examples hand to \<open>int\<close> are \<open>0\<close>, \<open>1\<close>, \<open>2\<close>,
  \<open>01\<close>, \<open>90\<close> and \<open>yes\<close>. For the examples \<open>int\<close> is \<open>digits_int\<close>: a string of
  the digits 0 to 9 that is not empty is read as a decimal number, and any other string
  raises \<open>ValueError\<close>. That is what \<open>int\<close> does for the strings of the examples; it
  is not meant as \<open>int\<close> for strings with a sign, white space or digits of other
  scripts, which the examples do not contain.
\<close>

definition isdigit :: "char \<Rightarrow> bool" where
  "isdigit c = (48 \<le> (of_char c :: nat) \<and> (of_char c :: nat) \<le> 57)"

fun digits_value :: "string \<Rightarrow> nat \<Rightarrow> nat" where
  "digits_value [] acc = acc"
| "digits_value (c # cs) acc = digits_value cs (10 * acc + (of_char c - 48))"

definition digits_int :: "string \<Rightarrow> py_error + int" where
  "digits_int ds =
     (if ds \<noteq> [] \<and> list_all isdigit ds then Inr (int (digits_value ds 0)) else Inl ValueError)"

definition table_env ::
  "(string \<times> (py_error + document)) list \<Rightarrow> (string \<times> (py_error + document)) list
     \<Rightarrow> (string \<times> string list) list \<Rightarrow> env" where
  "table_env files texts lines =
     \<lparr>etree_parse = (\<lambda>f. case map_of files f of Some r \<Rightarrow> r | None \<Rightarrow> Inl IOError),
      etree_parse_text = (\<lambda>s. case map_of texts s of Some r \<Rightarrow> r | None \<Rightarrow> Inl (XMLSyntaxError 1)),
      readlines = (\<lambda>f. case map_of lines f of Some ls \<Rightarrow> Inr ls | None \<Rightarrow> Inl IOError),
      os_path_dirname = posix_dirname,
      os_path_join = posix_join,
      os_path_abspath = posix_abspath,
      py_int = digits_int\<rparr>"

text \<open>An empty element, and an element with element children only.\<close>

definition leaf :: "string \<Rightarrow> (string \<times> string) list \<Rightarrow> element" where
  "leaf t as = Element t as []"

definition branch :: "string \<Rightarrow> (string \<times> string) list \<Rightarrow> element list \<Rightarrow> element" where
  "branch t as cs = Element t as (map Elem cs)"

text \<open>
  A static object with one image, in a file of its own, and the same object with the
  value \<open>2\<close> for \<open>static\<close>.
\<close>

definition tree_root :: element where
  "tree_root =
     branch ''object'' [(''id'', ''tree''), (''static'', ''1'')]
       [leaf ''image'' [(''source'', ''tree.png''), (''direction'', ''0'')]]"

definition tree_env :: env where
  "tree_env = table_env [(''d/tree.xml'', Inr \<lparr>getroot = tree_root, getprevious = None\<rparr>)] [] []"

definition tree_def :: obj_def where
  "tree_def =
     \<lparr>obj_object = [(''id'', ''tree''), (''static'', ''1'')],
      obj_actions = None,
      obj_directions =
        Some [(0, [(''source'', ''/d/tree.png''), (''direction'', ''0''), (''type'', ''image'')])]\<rparr>"

definition bad_static_root :: element where
  "bad_static_root =
     branch ''object'' [(''id'', ''tree''), (''static'', ''2'')]
       [leaf ''image'' [(''source'', ''tree.png''), (''direction'', ''0'')]]"

definition bad_static_env :: env where
  "bad_static_env =
     table_env [(''d/tree.xml'', Inr \<lparr>getroot = bad_static_root, getprevious = None\<rparr>)] [] []"


definition short_id_animation :: element where
  "short_id_animation =
     branch ''animation'' [(''id'', ''walk:0''), (''x_offset'', ''0''), (''y_offset'', ''0'')]
       [leaf ''frame'' [(''source'', ''walk_0.png'')]]"


definition empty_action :: element where
  "empty_action = leaf ''action'' [(''id'', ''stand'')]"

text \<open>
  A file that holds an atlas and two objects. lxml rejects the file as a whole at line 4,
  where the first \<open>object\<close> element begins after the end of the \<open>atlas\<close> element: the
  lines before line 3 are the atlas document, line 3 is skipped, and the lines from line
  4 on are the objects.
\<close>

definition pi_tag :: string where
  "pi_tag = ''<built-in function ProcessingInstruction>''"

definition atlas_pi_line :: string where
  \<open>atlas_pi_line = line ''<?fife type="atlas"?>''\<close>

definition atlas_line :: string where
  \<open>atlas_line =
     line ''<atlas name="a.png"><image source="x.png" xpos="0"/><image source="y.png" xpos="8"/></atlas>''\<close>

definition object_pi_line :: string where
  \<open>object_pi_line = line ''<?fife type="object"?>''\<close>

definition o1_line :: string where
  \<open>o1_line = line ''<object id="o1" static="1"><image source="x.png" direction="0"/></object>''\<close>

definition o2_line :: string where
  \<open>o2_line = line ''<object id="o2" static="1"><image source="z.png" direction="90"/></object>''\<close>

definition dual_atlas :: element where
  "dual_atlas =
     branch ''atlas'' [(''name'', ''a.png'')]
       [leaf ''image'' [(''source'', ''x.png''), (''xpos'', ''0'')],
        leaf ''image'' [(''source'', ''y.png''), (''xpos'', ''8'')]]"

definition dual_atlas_doc :: document where
  \<open>dual_atlas_doc =
     \<lparr>getroot = dual_atlas, getprevious = Some (Misc pi_tag (Some ''type="atlas"''))\<rparr>\<close>

definition dual_atlas_def :: atlas_def where
  "dual_atlas_def =
     \<lparr>atlas = dual_atlas,
      images = [(''x.png'', leaf ''image'' [(''source'', ''x.png''), (''xpos'', ''0'')]),
                (''y.png'', leaf ''image'' [(''source'', ''y.png''), (''xpos'', ''8'')])]\<rparr>"

definition dual_x_image :: element where
  "dual_x_image = leaf ''image'' [(''source'', ''x.png''), (''direction'', ''0'')]"

definition dual_z_image :: element where
  "dual_z_image = leaf ''image'' [(''source'', ''z.png''), (''direction'', ''90'')]"

definition dual_o1 :: element where
  "dual_o1 = branch ''object'' [(''id'', ''o1''), (''static'', ''1'')] [dual_x_image]"

definition dual_o2 :: element where
  "dual_o2 = branch ''object'' [(''id'', ''o2''), (''static'', ''1'')] [dual_z_image]"

definition dual_objects_doc :: document where
  "dual_objects_doc = \<lparr>getroot = branch ''objects'' [] [dual_o1, dual_o2], getprevious = None\<rparr>"

definition dual_env :: env where
  "dual_env =
     table_env
       [(''d/a.xml'', Inl (XMLSyntaxError 4))]
       [(concat [atlas_pi_line, atlas_line], Inr dual_atlas_doc),
        (concat ([line ''<objects>''] @ [o1_line, o2_line] @ [line ''</objects>'']),
           Inr dual_objects_doc)]
       [(''d/a.xml'', [atlas_pi_line, atlas_line] @ object_pi_line # [o1_line, o2_line])]"

definition dual_x_def :: "(string \<times> string) list" where
  "dual_x_def =
     [(''source'', ''/d/a.png''), (''direction'', ''0''), (''xpos'', ''0''), (''type'', ''atlas'')]"

definition dual_z_def :: "(string \<times> string) list" where
  "dual_z_def = [(''source'', ''/d/z.png''), (''direction'', ''90''), (''type'', ''image'')]"

definition dual_d1 :: obj_def where
  "dual_d1 =
     \<lparr>obj_object = [(''id'', ''o1''), (''static'', ''1'')],
      obj_actions = None,
      obj_directions = Some [(0, dual_x_def)]\<rparr>"

definition dual_d2 :: obj_def where
  "dual_d2 =
     \<lparr>obj_object = [(''id'', ''o2''), (''static'', ''1'')],
      obj_actions = None,
      obj_directions = Some [(90, dual_z_def)]\<rparr>"





text \<open>
  An object file that is one well-formed document of four lines. Its animation is kept
  in a second file, \<open>d/walk.xml\<close>, which is not well-formed: lxml rejects it at its
  line 7.
\<close>

definition hero_lines :: "string list" where
  \<open>hero_lines =
     [object_pi_line,
      line ''<object id="hero" static="0">'',
      line ''<action id="walk"><animation source="walk.xml"/></action>'',
      line ''</object>'']\<close>

definition hero_root :: element where
  "hero_root =
     branch ''object'' [(''id'', ''hero''), (''static'', ''0'')]
       [branch ''action'' [(''id'', ''walk'')] [leaf ''animation'' [(''source'', ''walk.xml'')]]]"

definition hero_doc :: document where
  \<open>hero_doc = \<lparr>getroot = hero_root, getprevious = Some (Misc pi_tag (Some ''type="object"''))\<rparr>\<close>

definition hero_env :: env where
  "hero_env =
     table_env
       [(''d/hero.xml'', Inr hero_doc), (''d/walk.xml'', Inl (XMLSyntaxError 7))]
       [(concat hero_lines, Inr hero_doc)]
       [(''d/hero.xml'', hero_lines)]"














section \<open>Properties\<close>

subsection \<open>Auxiliary facts about the loops\<close>

lemma parse_object_object:
  "parse_object env depth obj root_path ad = Inr od \<Longrightarrow> obj_object od = attrib obj"
  by (auto simp: parse_object_def split: sum.splits if_splits list.splits)

lemma parse_frames_result:
  "parse_frames env root_path fs acc =
     (if \<forall>f\<in>set fs. has_key (attrib f) ''source''
      then Inr (acc @ map (\<lambda>f. os_path_abspath env
                   (os_path_join env root_path (the (map_of (attrib f) ''source'')))) fs)
      else Inl (KeyError ''source''))"
  by (induction fs arbitrary: acc) (auto simp: getitem_def has_key_def split: option.splits)

lemma parse_animations_loop_append:
  "parse_animations_loop env depth (xs @ ys) root_path dirs =
     (case parse_animations_loop env depth xs root_path dirs of
        Inl e \<Rightarrow> Inl e
      | Inr dirs' \<Rightarrow> parse_animations_loop env depth ys root_path dirs')"
  by (induction xs arbitrary: dirs) (auto split: sum.splits)

lemma parse_actions_loop_append:
  "parse_actions_loop env depth (xs @ ys) root_path acc =
     (case parse_actions_loop env depth xs root_path acc of
        Inl e \<Rightarrow> Inl e
      | Inr acc' \<Rightarrow> parse_actions_loop env depth ys root_path acc')"
  by (induction xs arbitrary: acc) (auto split: sum.splits)

subsection \<open>A file that is one document\<close>

text \<open>
  C1, as the code has it. When the whole file parses as one XML document and
  \<open>parse_object\<close> accepts its root element, \<open>parse_file\<close> returns a list of exactly one
  definition, the one \<open>parse_object\<close> built for the root without an atlas, and the
  \<open>id\<close> of that definition is the \<open>id\<close> attribute of the root. The tag of the root is
  not looked at.
\<close>

theorem parse_file_single_document:
  assumes "etree_parse env filename = Inr doc"
    and "parse_object env depth (getroot doc) (os_path_dirname env filename) None = Inr od"
  shows "parse_file env depth filename = Inr [od]
         \<and> map_of (obj_object od) ''id'' = map_of (attrib (getroot doc)) ''id''"
  using assms parse_object_object [OF assms(2)]
  by (simp add: parse_file_def parse_plain_def)

theorem parse_file_single_document_witness:
  "etree_parse tree_env ''d/tree.xml'' = Inr \<lparr>getroot = tree_root, getprevious = None\<rparr>
   \<and> parse_object tree_env 10 tree_root (os_path_dirname tree_env ''d/tree.xml'') None = Inr tree_def
   \<and> parse_file tree_env 10 ''d/tree.xml'' = Inr [tree_def]
   \<and> map_of (obj_object tree_def) ''id'' = Some ''tree''"
proof -
  have h1: "etree_parse tree_env ''d/tree.xml'' = Inr \<lparr>getroot = tree_root, getprevious = None\<rparr>"
    by code_simp
  have h2: "parse_object tree_env 10 (getroot \<lparr>getroot = tree_root, getprevious = None\<rparr>)
              (os_path_dirname tree_env ''d/tree.xml'') None = Inr tree_def"
    by code_simp
  from parse_file_single_document [OF h1 h2] h1 h2 show ?thesis
    by (simp add: tree_root_def branch_def)
qed

text \<open>
  The file of this example is one XML document with an \<open>object\<close> element as its root,
  and \<open>parse_file\<close> returns no definition for it: the value of \<open>static\<close> is \<open>2\<close>.
\<close>

theorem parse_file_single_document_counterexample:
  "etree_parse bad_static_env ''d/tree.xml'' = Inr \<lparr>getroot = bad_static_root, getprevious = None\<rparr>
   \<and> tag bad_static_root = ''object''
   \<and> parse_file bad_static_env 10 ''d/tree.xml'' = Inl (unknown_kind ''image'')"
  by code_simp

subsection \<open>The value of static\<close>

text \<open>
  C5, as the code has it. When \<open>int\<close>, as the interpreter computes it, reads the
  \<open>static\<close> attribute of an object element as an integer other than 0 and 1 and the
  element has a child, \<open>parse_object\<close> raises the \<open>RuntimeError\<close> whose message
  names the tag of the first child of the element, and returns no definition.
\<close>

theorem parse_object_unknown_static:
  assumes "map_of (attrib obj) ''static'' = Some s"
    and "py_int env s = Inr n" and "n \<noteq> 0" and "n \<noteq> 1"
    and "children obj = c # cs"
  shows "parse_object env depth obj root_path ad = Inl (unknown_kind (node_tag c))"
  using assms by (simp add: parse_object_def getitem_def)

theorem parse_object_unknown_static_witness:
  "map_of (attrib bad_static_root) ''static'' = Some ''2'' \<and> py_int tree_env ''2'' = Inr 2
   \<and> parse_object tree_env 10 bad_static_root ''d'' None = Inl (unknown_kind ''image'')"
proof -
  have h1: "map_of (attrib bad_static_root) ''static'' = Some ''2''"
    by code_simp
  have h2: "py_int tree_env ''2'' = Inr 2"
    by code_simp
  have h3: "children bad_static_root =
              Elem (leaf ''image'' [(''source'', ''tree.png''), (''direction'', ''0'')]) # []"
    by code_simp
  from parse_object_unknown_static [OF h1 h2 _ _ h3, where depth = 10 and root_path = "''d''"
      and ad = None] h1 h2
  show ?thesis by (simp add: leaf_def)
qed

text \<open>
  A value of \<open>static\<close> that is no number raises \<open>ValueError\<close>, and the value \<open>01\<close>,
  which is neither \<open>0\<close> nor \<open>1\<close> as a string, is read as 1: the object is parsed as a
  static object.
\<close>

theorem parse_object_unknown_static_counterexample:
  "parse_object tree_env 10
     (branch ''object'' [(''id'', ''tree''), (''static'', ''yes'')]
        [leaf ''image'' [(''source'', ''tree.png''), (''direction'', ''0'')]]) ''d'' None
     = Inl ValueError
   \<and> parse_object tree_env 10
     (branch ''object'' [(''id'', ''tree''), (''static'', ''01'')]
        [leaf ''image'' [(''source'', ''tree.png''), (''direction'', ''0'')]]) ''d'' None
     = Inr \<lparr>obj_object = [(''id'', ''tree''), (''static'', ''01'')],
            obj_actions = None,
            obj_directions =
              Some [(0, [(''source'', ''/d/tree.png''), (''direction'', ''0''), (''type'', ''image'')])]\<rparr>"
  by code_simp

subsection \<open>The animations of an action\<close>



text \<open>
  C8. An animation element without \<open>source\<close> whose \<open>id\<close> has fewer than three
  segments between colons makes \<open>parse_animation\<close> raise: \<open>IndexError\<close> from the
  lookup of the third segment, or, when one of its frames has no \<open>source\<close>, the
  \<open>KeyError\<close> of that frame, which comes first. No definition is returned. The
  error goes through the caller unchanged: when the elements before it in the list
  parse and the list is of the kind with frames, \<open>parse_animations\<close> raises the same
  error.
\<close>

theorem parse_animation_short_id:
  assumes "map_of (attrib animation) ''source'' = None"
    and "map_of (attrib animation) ''id'' = Some ident"
    and "length (split CHR '':'' ident) < 3"
  shows "\<exists>e. parse_animation env depth animation root_path = Inl e
           \<and> e = (if \<forall>f\<in>set (findall animation ''frame''). has_key (attrib f) ''source''
                  then IndexError else KeyError ''source'')
           \<and> (\<not> has_key (attrib (hd (pre @ animation # post))) ''atlas''
               \<and> parse_animations_loop env depth pre root_path [] = Inr dirs \<longrightarrow>
              parse_animations env depth (pre @ animation # post) root_path = Inl e)"
proof -
  let ?e = "if \<forall>f\<in>set (findall animation ''frame''). has_key (attrib f) ''source''
            then IndexError else KeyError ''source''"
  have a: "parse_animation env depth animation root_path = Inl ?e"
    using assms by (simp add: parse_animation_inline_def parse_frames_result getitem_def index_def)
  have b: "parse_animations env depth (pre @ animation # post) root_path = Inl ?e"
    if h: "\<not> has_key (attrib (hd (pre @ animation # post))) ''atlas''"
      and l: "parse_animations_loop env depth pre root_path [] = Inr dirs"
  proof -
    have "parse_animations_loop env depth (pre @ animation # post) root_path [] = Inl ?e"
      using l a by (simp add: parse_animations_loop_append del: parse_animation.simps)
    then show ?thesis using h
      by (cases "pre @ animation # post") (auto simp: parse_animations_def simp del: parse_animation.simps)
  qed
  from a b show ?thesis by blast
qed

theorem parse_animation_short_id_witness:
  "map_of (attrib short_id_animation) ''source'' = None
   \<and> map_of (attrib short_id_animation) ''id'' = Some ''walk:0''
   \<and> length (split CHR '':'' ''walk:0'') = 2
   \<and> parse_animation tree_env 10 short_id_animation ''d'' = Inl IndexError
   \<and> parse_animations tree_env 10 [short_id_animation] ''d'' = Inl IndexError"
proof -
  have h1: "map_of (attrib short_id_animation) ''source'' = None"
    by code_simp
  have h2: "map_of (attrib short_id_animation) ''id'' = Some ''walk:0''"
    by code_simp
  have h3: "length (split CHR '':'' ''walk:0'') < 3"
    by simp
  have h4: "\<forall>f\<in>set (findall short_id_animation ''frame''). has_key (attrib f) ''source''"
    by code_simp
  have h5: "\<not> has_key (attrib (hd ([] @ short_id_animation # []))) ''atlas''"
    by code_simp
  from parse_animation_short_id [OF h1 h2 h3, of tree_env 10 "''d''" "[]" "[]" "[]"] h1 h2 h4 h5
  show ?thesis by simp
qed

text \<open>
  C9. For an action element without animation children \<open>parse_animations\<close> is called
  with the empty list and raises \<open>IndexError\<close> when it reads the first element; when
  the actions before it parse, \<open>parse_actions\<close> ends with that \<open>IndexError\<close>, whatever
  comes after the action.
\<close>

theorem parse_actions_no_animation:
  assumes "findall action ''animation'' = []"
    and "parse_actions env depth pre root_path = Inr done"
  shows "parse_animations env depth (findall action ''animation'') root_path = Inl IndexError
         \<and> parse_actions env depth (pre @ action # post) root_path = Inl IndexError"
  using assms by (simp add: parse_actions_def parse_actions_loop_append parse_animations_def)

theorem parse_actions_no_animation_witness:
  "findall empty_action ''animation'' = []
   \<and> parse_actions tree_env 10 [] ''d'' = Inr []
   \<and> parse_actions tree_env 10 [empty_action] ''d'' = Inl IndexError"
proof -
  have h1: "findall empty_action ''animation'' = []"
    by code_simp
  have h2: "parse_actions tree_env 10 [] ''d'' = Inr []"
    by code_simp
  from parse_actions_no_animation [OF h1 h2, of "[]"] h1 h2 show ?thesis by simp
qed

subsection \<open>A file that is two documents\<close>

lemma parse_objects_result:
  "parse_objects env depth objs root_path ad acc = Inr objects \<longleftrightarrow>
     (\<exists>ds. objects = acc @ ds
        \<and> map (\<lambda>obj. parse_object env depth obj root_path (Some ad)) objs = map Inr ds)"
proof (induction objs arbitrary: acc)
  case Nil
  then show ?case by auto
next
  case (Cons obj objs)
  show ?case
  proof (cases "parse_object env depth obj root_path (Some ad)")
    case (Inl e)
    then show ?thesis by (auto simp: map_eq_Cons_conv)
  next
    case (Inr od)
    then show ?thesis
      by (auto simp: Cons.IH map_eq_Cons_conv Cons_eq_map_conv)
  qed
qed




text \<open>
  C3, as the code has it. When \<open>parse_file\<close> returns a list, either the whole file
  parsed as one document and the list is the single definition of its root, parsed
  without an atlas; or the direct attempt raised an XML syntax error and the list holds,
  in document order, the definitions of the \<open>object\<close> children of the second document,
  each parsed with the atlas of the first document, and nothing else. The list may be
  empty in the second case.
\<close>

theorem parse_file_result_shape:
  assumes "parse_file env depth filename = Inr objects"
  shows "(\<exists>doc od. etree_parse env filename = Inr doc
            \<and> parse_object env depth (getroot doc) (os_path_dirname env filename) None = Inr od
            \<and> objects = [od])
       \<or> (\<exists>lineno lines adoc ad odoc.
            parse_plain env depth filename (os_path_dirname env filename) = Inl (XMLSyntaxError lineno)
            \<and> readlines env filename = Inr lines
            \<and> etree_parse_text env (concat (slice_to lines (lineno - 2))) = Inr adoc
            \<and> parse_atlas (getroot adoc) (os_path_dirname env filename) = Inr ad
            \<and> etree_parse_text env
                  (concat ([line ''<objects>''] @ slice_from lines (lineno - 2 + 1)
                            @ [line ''</objects>''])) = Inr odoc
            \<and> map (\<lambda>obj. parse_object env depth obj (os_path_dirname env filename) (Some ad))
                  (findall (getroot odoc) ''object'') = map Inr objects)"
proof (cases "parse_plain env depth filename (os_path_dirname env filename)")
  case (Inr objs)
  then have "objects = objs" using assms by (simp add: parse_file_def)
  with Inr show ?thesis
    by (auto simp: parse_plain_def split: sum.splits)
next
  case (Inl e)
  then obtain lineno where e: "e = XMLSyntaxError lineno"
    using assms by (cases e) (simp_all add: parse_file_def)
  with Inl assms have r: "recover env depth filename (os_path_dirname env filename) lineno = Inr objects"
    by (simp add: parse_file_def)
  then show ?thesis using Inl e
    by (auto simp: recover_def Let_def parse_objects_result split: sum.splits if_splits)
qed

theorem parse_file_result_shape_witness:
  "parse_file dual_env 10 ''d/a.xml'' = Inr [dual_d1, dual_d2]
   \<and> etree_parse dual_env ''d/a.xml'' = Inl (XMLSyntaxError 4)
   \<and> (\<exists>lineno lines adoc ad odoc.
         parse_plain dual_env 10 ''d/a.xml'' (os_path_dirname dual_env ''d/a.xml'')
           = Inl (XMLSyntaxError lineno)
         \<and> readlines dual_env ''d/a.xml'' = Inr lines
         \<and> etree_parse_text dual_env (concat (slice_to lines (lineno - 2))) = Inr adoc
         \<and> parse_atlas (getroot adoc) (os_path_dirname dual_env ''d/a.xml'') = Inr ad
         \<and> etree_parse_text dual_env
               (concat ([line ''<objects>''] @ slice_from lines (lineno - 2 + 1)
                         @ [line ''</objects>''])) = Inr odoc
         \<and> map (\<lambda>obj. parse_object dual_env 10 obj (os_path_dirname dual_env ''d/a.xml'') (Some ad))
               (findall (getroot odoc) ''object'') = map Inr [dual_d1, dual_d2])"
proof -
  have h: "parse_file dual_env 10 ''d/a.xml'' = Inr [dual_d1, dual_d2]"
    by code_simp
  have e: "etree_parse dual_env ''d/a.xml'' = Inl (XMLSyntaxError 4)"
    by (simp add: dual_env_def table_env_def)
  from parse_file_result_shape [OF h] h e show ?thesis
    by simp
qed

text \<open>
  For the file with an atlas and two objects the whole-file attempt fails, so there is
  no definition of a plain document; the first element of the result is the definition
  of the first object of the second document, parsed with the atlas.
\<close>

theorem parse_file_result_shape_counterexample:
  "etree_parse dual_env ''d/a.xml'' = Inl (XMLSyntaxError 4)
   \<and> parse_file dual_env 10 ''d/a.xml'' = Inr [dual_d1, dual_d2]
   \<and> parse_object dual_env 10 dual_o1 ''d'' (Some dual_atlas_def) = Inr dual_d1"
  by code_simp

subsection \<open>When the handler of the syntax error runs\<close>

text \<open>
  Once the handler runs and the node before the root of the first document declares a
  type other than \<open>atlas\<close>, the call ends with the \<open>RuntimeError\<close> for an unexpected
  file format. An error of the direct attempt that is no XML syntax error goes to the
  caller as it is.
\<close>

lemma recover_unexpected_format:
  assumes "readlines env filename = Inr lines"
    and "etree_parse_text env (concat (slice_to lines (lineno - 2))) = Inr adoc"
    and "file_type (getprevious adoc) = Inr t" and "t \<noteq> ''atlas''"
  shows "recover env depth filename root_path lineno = Inl (unexpected_format filename)"
  using assms by (simp add: recover_def)

lemma parse_file_reraise:
  assumes "parse_plain env depth filename (os_path_dirname env filename) = Inl e"
    and "\<forall>lineno. e \<noteq> XMLSyntaxError lineno"
  shows "parse_file env depth filename = Inl e"
  using assms by (cases e) (simp_all add: parse_file_def)

text \<open>
  C4. The handler does not run only when the first parse of the whole file fails. The
  object file of this example parses as one document; its animation is in a second file
  that is not well-formed, and the XML syntax error of that file, raised inside
  \<open>parse_object\<close>, is caught by the same handler: the object file is cut at line 5, a
  line number of the other file, parsed again, and the call ends with the error for an
  unexpected file format instead of the XML syntax error.
\<close>

theorem parse_file_handler_catches_nested_error:
  "etree_parse hero_env ''d/hero.xml'' = Inr hero_doc
   \<and> parse_object hero_env 10 (getroot hero_doc) ''d'' None = Inl (XMLSyntaxError 7)
   \<and> readlines hero_env ''d/hero.xml'' = Inr hero_lines
   \<and> etree_parse_text hero_env (concat (slice_to hero_lines (7 - 2))) = Inr hero_doc
   \<and> file_type (getprevious hero_doc) = Inr ''object''
   \<and> parse_file hero_env 10 ''d/hero.xml'' = Inl (unexpected_format ''d/hero.xml'')"
  by code_simp

subsection \<open>Dictionaries of directions\<close>

lemma parse_images_loop:
  "parse_images env root_path ad xs d = update_loop (parse_image env root_path ad) xs d"
  by (induction xs arbitrary: d) (auto split: sum.splits)






lemma update_loop_origin:
  "update_loop f xs d = Inr d' \<Longrightarrow> map_of d' k = Some v \<Longrightarrow>
     map_of d k = Some v \<or> (\<exists>x\<in>set xs. f x = Inr (k, v))"
proof (induction xs arbitrary: d)
  case Nil
  then show ?case by simp
next
  case (Cons x xs)
  from Cons.prems(1) obtain k' v' where fx: "f x = Inr (k', v')"
    and rest: "update_loop f xs (AList.update k' v' d) = Inr d'"
    by (auto split: sum.splits)
  from Cons.IH [OF rest Cons.prems(2)] fx show ?case
    by (auto simp: update_conv' split: if_splits)
qed



lemma parse_object_directions:
  "parse_object env depth obj root_path ad = Inr od \<Longrightarrow> obj_directions od = Some dir_defs \<Longrightarrow>
     parse_images env root_path ad (findall obj ''image'') [] = Inr dir_defs"
  by (auto simp: parse_object_def split: sum.splits if_splits list.splits)



text \<open>
  C6. When the loop over the images of a static object gets a definition for an image,
  and the \<open>source\<close> of the image is a key of the images of the atlas, the definition
  has the type \<open>atlas\<close>, its \<open>source\<close> is the absolute path of the \<open>name\<close> of the
  atlas element joined to the directory of the file, and every other key has the value
  of the attributes of the image updated with the attributes of the atlas entry. When
  there is no atlas or the \<open>source\<close> is no key of its images, the definition has the
  type \<open>image\<close>, its \<open>source\<close> is the absolute path of the \<open>source\<close> of the image
  joined to the directory, and every other key has the value of the attribute of the
  image. Every definition in the \<open>directions\<close> of a parsed object is the definition
  the loop got for one of its \<open>image\<close> children.
\<close>

theorem parse_image_origin:
  "(parse_image env root_path ad img = Inr (dir, image_def)
      \<and> map_of (attrib img) ''source'' = Some source
      \<and> ad = Some a \<and> map_of (images a) source = Some entry \<longrightarrow>
        map_of image_def ''type'' = Some ''atlas''
        \<and> (\<exists>name. map_of (attrib (atlas a)) ''name'' = Some name
              \<and> map_of image_def ''source''
                  = Some (os_path_abspath env (os_path_join env root_path name)))
        \<and> (\<forall>k. k \<noteq> ''type'' \<and> k \<noteq> ''source'' \<longrightarrow>
              map_of image_def k = (map_of (attrib img) ++ map_of (attrib entry)) k))
   \<and> (parse_image env root_path ad img = Inr (dir, image_def)
      \<and> map_of (attrib img) ''source'' = Some source
      \<and> (\<forall>a. ad = Some a \<longrightarrow> map_of (images a) source = None) \<longrightarrow>
        map_of image_def ''type'' = Some ''image''
        \<and> map_of image_def ''source''
            = Some (os_path_abspath env (os_path_join env root_path source))
        \<and> (\<forall>k. k \<noteq> ''type'' \<and> k \<noteq> ''source'' \<longrightarrow> map_of image_def k = map_of (attrib img) k))
   \<and> (parse_object env depth obj root_path ad = Inr od
      \<and> obj_directions od = Some dir_defs \<and> map_of dir_defs d = Some image_def' \<longrightarrow>
        (\<exists>img'\<in>set (findall obj ''image''). parse_image env root_path ad img' = Inr (d, image_def')))"
proof (intro conjI impI)
  assume h: "parse_image env root_path ad img = Inr (dir, image_def)
      \<and> map_of (attrib img) ''source'' = Some source
      \<and> ad = Some a \<and> map_of (images a) source = Some entry"
  then obtain name where n: "map_of (attrib (atlas a)) ''name'' = Some name"
    by (auto simp: parse_image_def getitem_def split: option.splits)
  with h have d: "image_def =
       AList.update ''source'' (os_path_abspath env (os_path_join env root_path name))
         (AList.update ''source'' name
           (AList.update ''type'' ''atlas'' (AList.merge (attrib img) (attrib entry))))"
    by (auto simp: parse_image_def getitem_def update_conv' Let_def split: option.splits sum.splits)
  show "map_of image_def ''type'' = Some ''atlas''"
    by (simp add: d update_conv')
  show "\<exists>name. map_of (attrib (atlas a)) ''name'' = Some name
              \<and> map_of image_def ''source''
                  = Some (os_path_abspath env (os_path_join env root_path name))"
    using n by (simp add: d update_conv')
  show "\<forall>k. k \<noteq> ''type'' \<and> k \<noteq> ''source'' \<longrightarrow>
              map_of image_def k = (map_of (attrib img) ++ map_of (attrib entry)) k"
    by (simp add: d update_conv' merge_conv')
next
  assume h: "parse_image env root_path ad img = Inr (dir, image_def)
      \<and> map_of (attrib img) ''source'' = Some source
      \<and> (\<forall>a. ad = Some a \<longrightarrow> map_of (images a) source = None)"
  then have d: "image_def =
       AList.update ''source'' (os_path_abspath env (os_path_join env root_path source))
         (AList.update ''type'' ''image'' (attrib img))"
    by (cases ad)
      (auto simp: parse_image_def getitem_def update_conv' Let_def split: option.splits sum.splits)
  show "map_of image_def ''type'' = Some ''image''"
    by (simp add: d update_conv')
  show "map_of image_def ''source''
            = Some (os_path_abspath env (os_path_join env root_path source))"
    by (simp add: d update_conv')
  show "\<forall>k. k \<noteq> ''type'' \<and> k \<noteq> ''source'' \<longrightarrow> map_of image_def k = map_of (attrib img) k"
    by (simp add: d update_conv')
next
  assume h: "parse_object env depth obj root_path ad = Inr od
      \<and> obj_directions od = Some dir_defs \<and> map_of dir_defs d = Some image_def'"
  then have "update_loop (parse_image env root_path ad) (findall obj ''image'') [] = Inr dir_defs"
    using parse_object_directions [of env depth obj root_path ad od dir_defs]
    by (simp add: parse_images_loop [symmetric])
  from update_loop_origin [OF this] h
  show "\<exists>img'\<in>set (findall obj ''image''). parse_image env root_path ad img' = Inr (d, image_def')"
    by auto
qed

theorem parse_image_origin_witness:
  "parse_image dual_env ''d'' (Some dual_atlas_def) dual_x_image = Inr (0, dual_x_def)
   \<and> map_of (images dual_atlas_def) ''x.png''
       = Some (leaf ''image'' [(''source'', ''x.png''), (''xpos'', ''0'')])
   \<and> map_of dual_x_def ''type'' = Some ''atlas''
   \<and> map_of dual_x_def ''source'' = Some ''/d/a.png''
   \<and> map_of dual_x_def ''xpos'' = Some ''0''
   \<and> parse_image dual_env ''d'' (Some dual_atlas_def) dual_z_image = Inr (90, dual_z_def)
   \<and> map_of (images dual_atlas_def) ''z.png'' = None
   \<and> map_of dual_z_def ''type'' = Some ''image''
   \<and> map_of dual_z_def ''source'' = Some ''/d/z.png''
   \<and> parse_object dual_env 10 dual_o1 ''d'' (Some dual_atlas_def) = Inr dual_d1
   \<and> findall dual_o1 ''image'' = [dual_x_image]"
proof -
  have x1: "parse_image dual_env ''d'' (Some dual_atlas_def) dual_x_image = Inr (0, dual_x_def)"
    by code_simp
  have x2: "map_of (attrib dual_x_image) ''source'' = Some ''x.png''"
    by code_simp
  have x3: "map_of (images dual_atlas_def) ''x.png''
              = Some (leaf ''image'' [(''source'', ''x.png''), (''xpos'', ''0'')])"
    by code_simp
  have x4: "map_of (attrib (atlas dual_atlas_def)) ''name'' = Some ''a.png''"
    by code_simp
  have x5: "os_path_abspath dual_env (os_path_join dual_env ''d'' ''a.png'') = ''/d/a.png''"
    by code_simp
  have x6: "(map_of (attrib dual_x_image)
              ++ map_of (attrib (leaf ''image'' [(''source'', ''x.png''), (''xpos'', ''0'')]))) ''xpos''
              = Some ''0''"
    by (simp add: leaf_def dual_x_image_def)
  have z1: "parse_image dual_env ''d'' (Some dual_atlas_def) dual_z_image = Inr (90, dual_z_def)"
    by code_simp
  have z2: "map_of (attrib dual_z_image) ''source'' = Some ''z.png''"
    by code_simp
  have z3: "map_of (images dual_atlas_def) ''z.png'' = None"
    by code_simp
  have z5: "os_path_abspath dual_env (os_path_join dual_env ''d'' ''z.png'') = ''/d/z.png''"
    by code_simp
  have o1: "parse_object dual_env 10 dual_o1 ''d'' (Some dual_atlas_def) = Inr dual_d1"
    by code_simp
  have o2: "obj_directions dual_d1 = Some [(0, dual_x_def)]"
    by (simp add: dual_d1_def)
  have o3: "findall dual_o1 ''image'' = [dual_x_image]"
    by code_simp
  note x = parse_image_origin [where env = dual_env and root_path = "''d''"
      and ad = "Some dual_atlas_def" and img = dual_x_image and dir = 0 and image_def = dual_x_def
      and source = "''x.png''" and a = dual_atlas_def
      and entry = "leaf ''image'' [(''source'', ''x.png''), (''xpos'', ''0'')]"
      and depth = 10 and obj = dual_o1 and od = dual_d1 and dir_defs = "[(0, dual_x_def)]"
      and d = 0 and image_def' = dual_x_def]
  note z = parse_image_origin [where env = dual_env and root_path = "''d''"
      and ad = "Some dual_atlas_def" and img = dual_z_image and dir = 90 and image_def = dual_z_def
      and source = "''z.png''"]
  from x x1 x2 x3 x4 x5 x6 o1 o2 o3
  have a: "map_of dual_x_def ''type'' = Some ''atlas'' \<and> map_of dual_x_def ''source'' = Some ''/d/a.png''
           \<and> map_of dual_x_def ''xpos'' = Some ''0''"
    by simp
  from z z1 z2 z3 z5
  have b: "map_of dual_z_def ''type'' = Some ''image'' \<and> map_of dual_z_def ''source'' = Some ''/d/z.png''"
    by simp
  from a b x1 x3 z1 z3 o1 o3 show ?thesis by simp
qed



end
